theory Spec2Isabelle
  imports Main
begin

section \<open>The violation classes of \<^verbatim>\<open>violations/naming.py\<close> and \<^verbatim>\<open>violations/complexity.py\<close>\<close>

text \<open>
  Each violation is a Python class that sets the class attributes \<^verbatim>\<open>code\<close> and
  \<^verbatim>\<open>error_template\<close>, optionally overrides \<^verbatim>\<open>should_use_text\<close>, and
  derives from one of three base classes imported from \<^verbatim>\<open>violations/base.py\<close>.
  The classes are an enumeration here and every class attribute is a function on it,
  one equation per class body, in the order of the source files.
\<close>

datatype violation_base = ASTViolation | MaybeASTViolation | SimpleViolation

datatype violation_class =
    WrongModuleNameViolation
  | WrongModuleMagicNameViolation
  | WrongModuleNamePatternViolation
  | WrongVariableNameViolation
  | TooShortNameViolation
  | PrivateNameViolation
  | SameAliasImportViolation
  | UnderscoredNumberNameViolation
  | UpperCaseAttributeViolation
  | ConsecutiveUnderscoresInNameViolation
  | JonesScoreViolation
  | TooManyImportsViolation
  | TooManyModuleMembersViolation
  | TooManyLocalsViolation
  | TooManyArgumentsViolation
  | TooManyReturnsViolation
  | TooManyExpressionsViolation
  | TooManyMethodsViolation
  | TooDeepNestingViolation
  | LineComplexityViolation
  | TooManyConditionsViolation
  | TooManyElifsViolation
  | TooManyForsInComprehensionViolation
  | TooManyBaseClassesViolation

text \<open>The classes each module defines, in the order of definition.\<close>

definition naming_violations :: "violation_class list" where
  "naming_violations =
    [WrongModuleNameViolation, WrongModuleMagicNameViolation,
     WrongModuleNamePatternViolation, WrongVariableNameViolation,
     TooShortNameViolation, PrivateNameViolation, SameAliasImportViolation,
     UnderscoredNumberNameViolation, UpperCaseAttributeViolation,
     ConsecutiveUnderscoresInNameViolation]"

definition complexity_violations :: "violation_class list" where
  "complexity_violations =
    [JonesScoreViolation, TooManyImportsViolation, TooManyModuleMembersViolation,
     TooManyLocalsViolation, TooManyArgumentsViolation, TooManyReturnsViolation,
     TooManyExpressionsViolation, TooManyMethodsViolation, TooDeepNestingViolation,
     LineComplexityViolation, TooManyConditionsViolation, TooManyElifsViolation,
     TooManyForsInComprehensionViolation, TooManyBaseClassesViolation]"

definition all_violations :: "violation_class list" where
  "all_violations = naming_violations @ complexity_violations"

text \<open>The base class named in the \<^verbatim>\<open>class\<close> statement.\<close>

fun base_class :: "violation_class \<Rightarrow> violation_base" where
  "base_class WrongModuleNameViolation = SimpleViolation"
| "base_class WrongModuleMagicNameViolation = SimpleViolation"
| "base_class WrongModuleNamePatternViolation = SimpleViolation"
| "base_class WrongVariableNameViolation = ASTViolation"
| "base_class TooShortNameViolation = MaybeASTViolation"
| "base_class PrivateNameViolation = MaybeASTViolation"
| "base_class SameAliasImportViolation = ASTViolation"
| "base_class UnderscoredNumberNameViolation = MaybeASTViolation"
| "base_class UpperCaseAttributeViolation = ASTViolation"
| "base_class ConsecutiveUnderscoresInNameViolation = MaybeASTViolation"
| "base_class JonesScoreViolation = SimpleViolation"
| "base_class TooManyImportsViolation = SimpleViolation"
| "base_class TooManyModuleMembersViolation = SimpleViolation"
| "base_class TooManyLocalsViolation = ASTViolation"
| "base_class TooManyArgumentsViolation = ASTViolation"
| "base_class TooManyReturnsViolation = ASTViolation"
| "base_class TooManyExpressionsViolation = ASTViolation"
| "base_class TooManyMethodsViolation = ASTViolation"
| "base_class TooDeepNestingViolation = ASTViolation"
| "base_class LineComplexityViolation = ASTViolation"
| "base_class TooManyConditionsViolation = ASTViolation"
| "base_class TooManyElifsViolation = ASTViolation"
| "base_class TooManyForsInComprehensionViolation = ASTViolation"
| "base_class TooManyBaseClassesViolation = ASTViolation"

text \<open>
  The assignment to \<^verbatim>\<open>should_use_text\<close> in the class body: \<open>Some False\<close> where the
  body holds \<^verbatim>\<open>should_use_text = False\<close>, \<open>None\<close> where the body does not assign
  the attribute and the class inherits it from its base class.
\<close>

fun should_use_text :: "violation_class \<Rightarrow> bool option" where
  "should_use_text WrongModuleNameViolation = Some False"
| "should_use_text WrongModuleMagicNameViolation = Some False"
| "should_use_text WrongModuleNamePatternViolation = Some False"
| "should_use_text WrongVariableNameViolation = None"
| "should_use_text TooShortNameViolation = None"
| "should_use_text PrivateNameViolation = None"
| "should_use_text SameAliasImportViolation = None"
| "should_use_text UnderscoredNumberNameViolation = None"
| "should_use_text UpperCaseAttributeViolation = None"
| "should_use_text ConsecutiveUnderscoresInNameViolation = None"
| "should_use_text JonesScoreViolation = Some False"
| "should_use_text TooManyImportsViolation = None"
| "should_use_text TooManyModuleMembersViolation = Some False"
| "should_use_text TooManyLocalsViolation = None"
| "should_use_text TooManyArgumentsViolation = None"
| "should_use_text TooManyReturnsViolation = None"
| "should_use_text TooManyExpressionsViolation = None"
| "should_use_text TooManyMethodsViolation = None"
| "should_use_text TooDeepNestingViolation = None"
| "should_use_text LineComplexityViolation = None"
| "should_use_text TooManyConditionsViolation = None"
| "should_use_text TooManyElifsViolation = Some False"
| "should_use_text TooManyForsInComprehensionViolation = Some False"
| "should_use_text TooManyBaseClassesViolation = Some False"

fun error_template :: "violation_class \<Rightarrow> string" where
  \<open>error_template WrongModuleNameViolation = ''Found wrong module name''\<close>
| \<open>error_template WrongModuleMagicNameViolation = ''Found wrong module magic name''\<close>
| \<open>error_template WrongModuleNamePatternViolation =
     ''Found incorrect module name pattern''\<close>
| \<open>error_template WrongVariableNameViolation = ''Found wrong variable name "{0}"''\<close>
| \<open>error_template TooShortNameViolation = ''Found too short name "{0}"''\<close>
| \<open>error_template PrivateNameViolation = ''Found private name pattern "{0}"''\<close>
| \<open>error_template SameAliasImportViolation = ''Found same alias import "{0}"''\<close>
| \<open>error_template UnderscoredNumberNameViolation =
     ''Found underscored name pattern "{0}"''\<close>
| \<open>error_template UpperCaseAttributeViolation =
     ''Found upper-case constant in a class "{0}"''\<close>
| \<open>error_template ConsecutiveUnderscoresInNameViolation =
     ''Found consecutive underscores in a variable "{0}"''\<close>
| \<open>error_template JonesScoreViolation =
     ''Found module with high Jones Complexity score''\<close>
| \<open>error_template TooManyImportsViolation =
     ''Found module with too many imports: {0}''\<close>
| \<open>error_template TooManyModuleMembersViolation = ''Found too many module members''\<close>
| \<open>error_template TooManyLocalsViolation = ''Found too many local variables "{0}"''\<close>
| \<open>error_template TooManyArgumentsViolation = ''Found too many arguments "{0}"''\<close>
| \<open>error_template TooManyReturnsViolation =
     ''Found too many return statements "{0}"''\<close>
| \<open>error_template TooManyExpressionsViolation = ''Found too many expressions "{0}"''\<close>
| \<open>error_template TooManyMethodsViolation = ''Found too many methods "{0}"''\<close>
| \<open>error_template TooDeepNestingViolation = ''Found too deep nesting "{0}"''\<close>
| \<open>error_template LineComplexityViolation =
     ''Found line with high Jones Complexity: {0}''\<close>
| \<open>error_template TooManyConditionsViolation =
     ''Found a condition with too much logic: {0}''\<close>
| \<open>error_template TooManyElifsViolation = ''Found too many `elif` branches''\<close>
| \<open>error_template TooManyForsInComprehensionViolation =
     ''Found a comprehension with too many `for` statements''\<close>
| \<open>error_template TooManyBaseClassesViolation = ''Too many number of base classes''\<close>

fun code :: "violation_class \<Rightarrow> int" where
  "code WrongModuleNameViolation = 100"
| "code WrongModuleMagicNameViolation = 101"
| "code WrongModuleNamePatternViolation = 102"
| "code WrongVariableNameViolation = 110"
| "code TooShortNameViolation = 111"
| "code PrivateNameViolation = 112"
| "code SameAliasImportViolation = 113"
| "code UnderscoredNumberNameViolation = 114"
| "code UpperCaseAttributeViolation = 115"
| "code ConsecutiveUnderscoresInNameViolation = 116"
| "code JonesScoreViolation = 200"
| "code TooManyImportsViolation = 201"
| "code TooManyModuleMembersViolation = 202"
| "code TooManyLocalsViolation = 210"
| "code TooManyArgumentsViolation = 211"
| "code TooManyReturnsViolation = 212"
| "code TooManyExpressionsViolation = 213"
| "code TooManyMethodsViolation = 214"
| "code TooDeepNestingViolation = 220"
| "code LineComplexityViolation = 221"
| "code TooManyConditionsViolation = 222"
| "code TooManyElifsViolation = 223"
| "code TooManyForsInComprehensionViolation = 224"
| "code TooManyBaseClassesViolation = 225"

text \<open>
  The docstring sentence \<^verbatim>\<open>This rule checks: ...\<close>, as the list of the kinds of
  names it enumerates; the empty list for a class whose docstring has no such sentence.
\<close>

fun rule_checks :: "violation_class \<Rightarrow> string list" where
  "rule_checks TooShortNameViolation =
     [''modules'', ''variables'', ''attributes'', ''functions'', ''methods'', ''classes'']"
| "rule_checks PrivateNameViolation =
     [''modules'', ''variables'', ''attributes'', ''functions'', ''methods'']"
| "rule_checks UnderscoredNumberNameViolation =
     [''modules'', ''variables'', ''attributes'', ''functions'', ''method'', ''classes'']"
| "rule_checks ConsecutiveUnderscoresInNameViolation =
     [''modules'', ''variables'', ''attributes'', ''functions'', ''methods'']"
| "rule_checks _ = []"

subsection \<open>Strings\<close>

text \<open>Python's \<^verbatim>\<open>s.startswith(p)\<close> and \<^verbatim>\<open>sub in s\<close> on strings.\<close>

fun startswith :: "string \<Rightarrow> string \<Rightarrow> bool" where
  "startswith s [] = True"
| "startswith [] (p # ps) = False"
| "startswith (c # cs) (p # ps) = (c = p \<and> startswith cs ps)"

fun str_contains :: "string \<Rightarrow> string \<Rightarrow> bool" where
  "str_contains [] sub = (sub = [])"
| "str_contains (c # cs) sub = (startswith (c # cs) sub \<or> str_contains cs sub)"

text \<open>
  Python's \<^verbatim>\<open>template.format(text)\<close> for a template whose only replacement field
  is \<^verbatim>\<open>{0}\<close>: every occurrence of the field is replaced by the text and every other
  character is copied. No template of the catalogue has a brace outside such a field
  (lemma \<open>templates_only_field_zero\<close>).
\<close>

fun str_format :: "string \<Rightarrow> string \<Rightarrow> string" where
  "str_format (a # b # c # cs) t =
     (if [a, b, c] = ''{0}'' then t @ str_format cs t else a # str_format (b # c # cs) t)"
| "str_format cs t = cs"

text \<open>Python's \<^verbatim>\<open>str(n)\<close> for a non-negative integer: its decimal digits.\<close>

definition digit_char :: "nat \<Rightarrow> char" where
  "digit_char d = ''0123456789'' ! d"

fun str_nat :: "nat \<Rightarrow> string" where
  "str_nat n =
     (if n < 10 then [digit_char n] else str_nat (n div 10) @ [digit_char (n mod 10)])"

declare str_nat.simps [simp del]

section \<open>Violations and the checks that emit them\<close>

text \<open>
  Modelled from the spec: the violation value, its construction from a catalogue entry,
  the threshold configuration and the two checks below live in
  \<^verbatim>\<open>violations/base.py\<close> and in the visitors, which are not among the source
  files. The spec's data model gives a violation a code, a category, a location
  (line, column), a message and an optional parameter; the registry says of each kind
  whether it carries a formatted text parameter.
\<close>

datatype category = Naming | Complexity

record violation =
  v_code :: int
  v_category :: category
  v_location :: "nat \<times> nat"
  v_message :: string
  v_parameter :: "string option"

text \<open>Modelled from the spec: the category of a class is the module that defines it.\<close>

definition category_of :: "violation_class \<Rightarrow> category" where
  "category_of k = (if k \<in> set naming_violations then Naming else Complexity)"

text \<open>
  Modelled from the spec: a violation of kind \<open>k\<close> at a location, built from the text
  the check hands over. The message is the kind's template formatted with the text; the
  parameter is the text handed over, whether or not the template shows it.
\<close>

definition make_violation :: "violation_class \<Rightarrow> nat \<times> nat \<Rightarrow> string \<Rightarrow> violation" where
  "make_violation k loc txt =
     \<lparr>v_code = code k, v_category = category_of k, v_location = loc,
      v_message = str_format (error_template k) txt,
      v_parameter = Some txt\<rparr>"





text \<open>
  An import statement of the syntax tree: \<^verbatim>\<open>import a as b\<close> has no module,
  \<^verbatim>\<open>from m import a as b\<close> has module \<open>m\<close>; each imported name has an optional alias.
\<close>

record import_alias =
  alias_name :: string
  alias_asname :: "string option"

record import_stmt =
  import_module :: "string option"
  import_names :: "import_alias list"
  import_location :: "nat \<times> nat"

text \<open>
  Modelled from the spec: the import-alias check flags every imported name whose alias
  textually equals its original name, handing over the name.
\<close>

definition check_import_alias :: "import_stmt \<Rightarrow> violation list" where
  "check_import_alias imp =
     map (\<lambda>a. make_violation SameAliasImportViolation (import_location imp) (alias_name a))
       (filter (\<lambda>a. alias_asname a = Some (alias_name a)) (import_names imp))"


definition from_os_import_path_as_path :: import_stmt where
  "from_os_import_path_as_path =
     \<lparr>import_module = Some ''os'',
      import_names = [\<lparr>alias_name = ''path'', alias_asname = Some ''path''\<rparr>],
      import_location = (1, 0)\<rparr>"

definition import_sys_as_sys :: import_stmt where
  "import_sys_as_sys =
     \<lparr>import_module = None,
      import_names = [\<lparr>alias_name = ''sys'', alias_asname = Some ''sys''\<rparr>],
      import_location = (10, 0)\<rparr>"

section \<open>Properties of the catalogue and of the checks\<close>

lemma startswith_iff: "startswith s p \<longleftrightarrow> (\<exists>ss. s = p @ ss)"
  by (induction s p rule: startswith.induct) auto

lemma str_contains_iff: "str_contains s sub \<longleftrightarrow> (\<exists>ps ss. s = ps @ sub @ ss)"
proof (induction s)
  case Nil
  then show ?case by simp
next
  case (Cons c cs)
  show ?case
  proof
    assume "str_contains (c # cs) sub"
    then consider "startswith (c # cs) sub" | "str_contains cs sub" by auto
    then show "\<exists>ps ss. c # cs = ps @ sub @ ss"
    proof cases
      case 1
      then obtain ss where "c # cs = sub @ ss" by (auto simp: startswith_iff)
      then have "c # cs = [] @ sub @ ss" by simp
      then show ?thesis by blast
    next
      case 2
      with Cons.IH obtain ps ss where "cs = ps @ sub @ ss" by auto
      then have "c # cs = (c # ps) @ sub @ ss" by simp
      then show ?thesis by blast
    qed
  next
    assume "\<exists>ps ss. c # cs = ps @ sub @ ss"
    then obtain ps ss where eq: "c # cs = ps @ sub @ ss" by auto
    show "str_contains (c # cs) sub"
    proof (cases ps)
      case Nil
      with eq have "startswith (c # cs) sub" by (auto simp: startswith_iff)
      then show ?thesis by simp
    next
      case (Cons p ps')
      with eq have "cs = ps' @ sub @ ss" by simp
      with Cons.IH have "str_contains cs sub" by blast
      then show ?thesis by simp
    qed
  qed
qed

lemma all_violations_complete: "set all_violations = UNIV"
proof -
  have "v \<in> set all_violations" for v
    by (cases v) (simp_all add: all_violations_def naming_violations_def
        complexity_violations_def)
  then show ?thesis by auto
qed

lemma all_violations_distinct: "distinct all_violations"
  by (simp add: all_violations_def naming_violations_def complexity_violations_def)

text \<open>
  C2: every violation code of the catalogue is a three-digit integer, no two violation
  classes share a code, every class of the naming module has a code from 100 to 116 and
  every class of the complexity module has a code from 200 to 225. The two modules hold
  every class of the catalogue.
\<close>

theorem codes_unique_three_digit_grouped:
  "(\<forall>v. 100 \<le> code v \<and> code v \<le> 999)
   \<and> (\<forall>v w. v \<noteq> w \<longrightarrow> code v \<noteq> code w)
   \<and> (\<forall>v \<in> set naming_violations. 100 \<le> code v \<and> code v \<le> 116)
   \<and> (\<forall>v \<in> set complexity_violations. 200 \<le> code v \<and> code v \<le> 225)
   \<and> set naming_violations \<union> set complexity_violations = UNIV"
proof (intro conjI allI impI)
  fix v
  show "100 \<le> code v" by (cases v) simp_all
  show "code v \<le> 999" by (cases v) simp_all
next
  fix v w :: violation_class
  assume "v \<noteq> w"
  then show "code v \<noteq> code w" by (cases v; cases w; simp)
next
  show "\<forall>v \<in> set naming_violations. 100 \<le> code v \<and> code v \<le> 116"
    by (simp add: naming_violations_def)
  show "\<forall>v \<in> set complexity_violations. 200 \<le> code v \<and> code v \<le> 225"
    by (simp add: complexity_violations_def)
  show "set naming_violations \<union> set complexity_violations = UNIV"
    using all_violations_complete by (simp add: all_violations_def)
qed

theorem codes_unique_three_digit_grouped_witness:
  "TooShortNameViolation \<noteq> JonesScoreViolation
   \<and> code TooShortNameViolation \<noteq> code JonesScoreViolation
   \<and> TooShortNameViolation \<in> set naming_violations
   \<and> 100 \<le> code TooShortNameViolation \<and> code TooShortNameViolation \<le> 116
   \<and> JonesScoreViolation \<in> set complexity_violations
   \<and> 200 \<le> code JonesScoreViolation \<and> code JonesScoreViolation \<le> 225"
proof -
  have n: "TooShortNameViolation \<in> set naming_violations"
    by (simp add: naming_violations_def)
  have c: "JonesScoreViolation \<in> set complexity_violations"
    by (simp add: complexity_violations_def)
  have d: "TooShortNameViolation \<noteq> JonesScoreViolation" by simp
  from codes_unique_three_digit_grouped n c d show ?thesis by blast
qed

text \<open>
  C9: the catalogue has 24 violation classes; for every one of them the message template
  contains the placeholder \<^verbatim>\<open>{0}\<close> if and only if the class body does not set
  \<^verbatim>\<open>should_use_text = False\<close>.
\<close>

theorem placeholder_iff_should_use_text:
  "length all_violations = 24 \<and> distinct all_violations \<and> set all_violations = UNIV
   \<and> (\<forall>v. str_contains (error_template v) ''{0}'' = (should_use_text v \<noteq> Some False))"
proof (intro conjI allI)
  show "length all_violations = 24"
    by (simp add: all_violations_def naming_violations_def complexity_violations_def)
  show "distinct all_violations" by (rule all_violations_distinct)
  show "set all_violations = UNIV" by (rule all_violations_complete)
next
  fix v
  show "str_contains (error_template v) ''{0}'' = (should_use_text v \<noteq> Some False)"
    by (cases v) simp_all
qed

text \<open>
  C10: among the classes of the naming module, those whose docstring lists modules next
  to names of the syntax tree (variables and the rest) as what the rule checks are
  too-short-name (111), private-name (112), underscored-number (114) and
  consecutive-underscores (116), and exactly these derive from \<^verbatim>\<open>MaybeASTViolation\<close>;
  the three module-name checks (100, 101, 102) are exactly the classes deriving from
  \<^verbatim>\<open>SimpleViolation\<close>, and the remaining ones (110, 113, 115) exactly those deriving
  from \<^verbatim>\<open>ASTViolation\<close>.
\<close>

theorem naming_anchor_by_documented_scope:
  "\<forall>v \<in> set naming_violations.
     (base_class v = MaybeASTViolation \<longleftrightarrow>
        ''modules'' \<in> set (rule_checks v) \<and> ''variables'' \<in> set (rule_checks v))
   \<and> (base_class v = MaybeASTViolation \<longleftrightarrow> code v \<in> {111, 112, 114, 116})
   \<and> (base_class v = SimpleViolation \<longleftrightarrow> code v \<in> {100, 101, 102})
   \<and> (base_class v = ASTViolation \<longleftrightarrow> code v \<in> {110, 113, 115})"
  by (simp add: naming_violations_def)

theorem naming_anchor_by_documented_scope_witness:
  "TooShortNameViolation \<in> set naming_violations
   \<and> base_class TooShortNameViolation = MaybeASTViolation
   \<and> ''modules'' \<in> set (rule_checks TooShortNameViolation)
   \<and> code TooShortNameViolation \<in> {111, 112, 114, 116}
   \<and> code TooShortNameViolation \<notin> {100, 101, 102}
   \<and> code TooShortNameViolation \<notin> {110, 113, 115}"
proof -
  have n: "TooShortNameViolation \<in> set naming_violations"
    by (simp add: naming_violations_def)
  from naming_anchor_by_documented_scope [rule_format, OF n] n show ?thesis by simp
qed

lemma templates_only_field_zero:
  "CHR ''{'' \<notin> set (str_format (error_template k) [])
   \<and> CHR ''}'' \<notin> set (str_format (error_template k) [])"
  by (cases k) simp_all

lemma format_too_many_base_classes:
  "str_format (error_template TooManyBaseClassesViolation) txt =
     ''Too many number of base classes''"
  by simp

lemma format_same_alias_import:
  \<open>str_format (error_template SameAliasImportViolation) txt =
     ''Found same alias import "'' @ txt @ ''"''\<close>
  by simp

lemma digit_char_inj:
  assumes "a < 10" and "b < 10" and "digit_char a = digit_char b"
  shows "a = b"
proof -
  have "distinct ''0123456789''" by simp
  moreover have "a < length ''0123456789''" "b < length ''0123456789''"
    using assms by simp_all
  ultimately have "(''0123456789'' ! a = ''0123456789'' ! b) = (a = b)"
    by (rule nth_eq_iff_index_eq)
  with assms(3) show ?thesis by (simp add: digit_char_def)
qed

lemma str_nat_small: "n < 10 \<Longrightarrow> str_nat n = [digit_char n]"
  by (subst str_nat.simps) simp

lemma str_nat_big:
  "\<not> n < 10 \<Longrightarrow> str_nat n = str_nat (n div 10) @ [digit_char (n mod 10)]"
  by (subst str_nat.simps) simp

lemma str_nat_not_Nil: "str_nat n \<noteq> []"
  by (cases "n < 10") (simp_all add: str_nat_small str_nat_big)

lemma str_nat_inj: "str_nat m = str_nat n \<Longrightarrow> m = n"
proof (induction m arbitrary: n rule: str_nat.induct)
  case (1 m)
  show ?case
  proof (cases "m < 10")
    case m_small: True
    show ?thesis
    proof (cases "n < 10")
      case True
      with m_small "1.prems" have "digit_char m = digit_char n"
        by (simp add: str_nat_small)
      with m_small True show ?thesis by (rule digit_char_inj)
    next
      case False
      with m_small "1.prems"
      have "[digit_char m] = str_nat (n div 10) @ [digit_char (n mod 10)]"
        by (simp add: str_nat_small str_nat_big)
      then have "str_nat (n div 10) = []" by simp
      then show ?thesis by (simp add: str_nat_not_Nil)
    qed
  next
    case m_big: False
    show ?thesis
    proof (cases "n < 10")
      case True
      with m_big "1.prems"
      have "str_nat (m div 10) @ [digit_char (m mod 10)] = [digit_char n]"
        by (simp add: str_nat_small str_nat_big)
      then have "str_nat (m div 10) = []" by simp
      then show ?thesis by (simp add: str_nat_not_Nil)
    next
      case False
      with m_big "1.prems"
      have eq: "str_nat (m div 10) @ [digit_char (m mod 10)] =
                str_nat (n div 10) @ [digit_char (n mod 10)]"
        by (simp add: str_nat_big)
      then have "str_nat (m div 10) = str_nat (n div 10)" by simp
      with m_big "1.IH" have d: "m div 10 = n div 10" by blast
      from eq have "digit_char (m mod 10) = digit_char (n mod 10)" by simp
      then have r: "m mod 10 = n mod 10" by (intro digit_char_inj) simp_all
      from d r show ?thesis by (metis div_mult_mod_eq)
    qed
  qed
qed



text \<open>
  C8: for every import statement and every name it imports under an alias textually
  equal to the name, the import-alias check emits a violation with code 113 whose
  parameter is that name and whose message quotes it.
\<close>

theorem same_alias_import_flagged:
  assumes "a \<in> set (import_names imp)"
    and "alias_asname a = Some (alias_name a)"
  shows \<open>\<lparr>v_code = 113, v_category = Naming, v_location = import_location imp,
           v_message = ''Found same alias import "'' @ alias_name a @ ''"'',
           v_parameter = Some (alias_name a)\<rparr>
         \<in> set (check_import_alias imp)\<close>
proof -
  have "make_violation SameAliasImportViolation (import_location imp) (alias_name a)
        \<in> set (check_import_alias imp)"
    using assms by (auto simp: check_import_alias_def)
  moreover have \<open>make_violation SameAliasImportViolation (import_location imp) (alias_name a) =
      \<lparr>v_code = 113, v_category = Naming, v_location = import_location imp,
       v_message = ''Found same alias import "'' @ alias_name a @ ''"'',
       v_parameter = Some (alias_name a)\<rparr>\<close>
    by (simp add: make_violation_def category_of_def
        naming_violations_def)
  ultimately show ?thesis by simp
qed

theorem same_alias_import_flagged_witness:
  \<open>\<lparr>alias_name = ''path'', alias_asname = Some ''path''\<rparr>
      \<in> set (import_names from_os_import_path_as_path)
   \<and> \<lparr>v_code = 113, v_category = Naming, v_location = (1, 0),
       v_message = ''Found same alias import "path"'', v_parameter = Some ''path''\<rparr>
      \<in> set (check_import_alias from_os_import_path_as_path)
   \<and> \<lparr>alias_name = ''sys'', alias_asname = Some ''sys''\<rparr>
      \<in> set (import_names import_sys_as_sys)
   \<and> \<lparr>v_code = 113, v_category = Naming, v_location = (10, 0),
       v_message = ''Found same alias import "sys"'', v_parameter = Some ''sys''\<rparr>
      \<in> set (check_import_alias import_sys_as_sys)\<close>
proof -
  let ?p = "\<lparr>alias_name = ''path'', alias_asname = Some ''path''\<rparr>"
  let ?s = "\<lparr>alias_name = ''sys'', alias_asname = Some ''sys''\<rparr>"
  have p: "?p \<in> set (import_names from_os_import_path_as_path)"
    by (simp add: from_os_import_path_as_path_def)
  have s: "?s \<in> set (import_names import_sys_as_sys)"
    by (simp add: import_sys_as_sys_def)
  have eq_p: "alias_asname ?p = Some (alias_name ?p)" by simp
  have eq_s: "alias_asname ?s = Some (alias_name ?s)" by simp
  from same_alias_import_flagged [OF p eq_p] same_alias_import_flagged [OF s eq_s] p s
  show ?thesis
    by (simp add: from_os_import_path_as_path_def import_sys_as_sys_def)
qed

end
